theory Spec2Isabelle
  imports Main
begin

section \<open>GHClient: a key/value store over a repository contents API\<close>

text \<open>
  A shallow embedding of \<^verbatim>\<open>src/GHClient.ts\<close>. An \<^verbatim>\<open>async\<close> method becomes a function
  from the state of the world before the call to the settled promise and the state of the
  world after it. The world holds the state of the remote service and the list of the
  requests that reached \<^verbatim>\<open>octokit.request\<close>, in the order they were issued.
\<close>

subsection \<open>Values crossing the remote interface\<close>

text \<open>
  \<^verbatim>\<open>OctokitGetEndpointData\<close>: the fields the client reads. Both are optional at run time, so
  each is an option (\<open>None\<close> is JavaScript's \<^verbatim>\<open>undefined\<close>).
\<close>

record file_data =
  sha :: "string option"
  content :: "string option"

text \<open>
  \<^verbatim>\<open>getResponse.data\<close> is either one object or, for a folder, an array of them.
\<close>

datatype response_data = Object file_data | Array "file_data list"

text \<open>\<^verbatim>\<open>Array.isArray(data)\<close>.\<close>

fun isArray :: "response_data \<Rightarrow> bool" where
  "isArray (Array _) = True"
| "isArray (Object _) = False"

text \<open>
  \<^verbatim>\<open>const { sha, content } = getResponse.data\<close>: destructuring reads the properties of
  the object; an array has neither property, so both come out \<^verbatim>\<open>undefined\<close>.
\<close>

fun data_sha :: "response_data \<Rightarrow> string option" where
  "data_sha (Object d) = sha d"
| "data_sha (Array _) = None"

fun data_content :: "response_data \<Rightarrow> string option" where
  "data_content (Object d) = content d"
| "data_content (Array _) = None"

text \<open>
  JavaScript truthiness of a \<^verbatim>\<open>string | undefined\<close>, as tested by \<^verbatim>\<open>if (sha)\<close> and
  \<^verbatim>\<open>if (content)\<close>: \<^verbatim>\<open>undefined\<close> and the empty string are both falsy.
\<close>

fun truthy :: "string option \<Rightarrow> bool" where
  "truthy None = False"
| "truthy (Some s) = (s \<noteq> [])"

text \<open>
  Modelled from the spec: \<^verbatim>\<open>isGithubApiError\<close> of \<^verbatim>\<open>src/helpers/GHClientHelpers\<close> is not
  among the sources; the spec describes it as the test for ``a recognizable shape (an
  HTTP-status-bearing API error)''. So what \<^verbatim>\<open>octokit.request\<close> throws is either such an
  error, with the \<^verbatim>\<open>status\<close> and \<^verbatim>\<open>message\<close> the client destructures, or anything else. The
  client reads \<open>status\<close> and \<open>message\<close> only after the test has succeeded.
\<close>

datatype thrown = GithubApiError int string | OtherError string

fun isGithubApiError :: "thrown \<Rightarrow> bool" where
  "isGithubApiError (GithubApiError _ _) = True"
| "isGithubApiError (OtherError _) = False"

fun status :: "thrown \<Rightarrow> int" where
  "status (GithubApiError st _) = st"
| "status (OtherError _) = 0"

fun message :: "thrown \<Rightarrow> string" where
  "message (GithubApiError _ m) = m"
| "message (OtherError m) = m"

text \<open>
  The three routes the client requests, with the parameters that identify the target and
  carry the payload. The commit metadata (\<^verbatim>\<open>committer\<close>, and \<^verbatim>\<open>message\<close> with the wall-clock
  time of \<^verbatim>\<open>new Date().getTime()\<close>) never influences the client's control flow and is left
  out, and with it the \<^verbatim>\<open>committer\<close> field the constructor sets. The arguments are
  \<^verbatim>\<open>owner\<close>, \<^verbatim>\<open>repo\<close> and \<^verbatim>\<open>path\<close>, then for \<open>PUT\<close> the \<^verbatim>\<open>content\<close>, and last for \<open>PUT\<close>
  and \<open>DELETE\<close> the \<^verbatim>\<open>sha\<close> parameter, \<open>None\<close> when the request carries none.
\<close>

datatype request =
    GET string string string
  | PUT string string string string "string option"
  | DELETE string string string "string option"

fun isWrite :: "request \<Rightarrow> bool" where
  "isWrite (GET _ _ _) = False"
| "isWrite (PUT _ _ _ _ _) = True"
| "isWrite (DELETE _ _ _ _) = True"

text \<open>
  The remote client: a request and the state of the service give the settled response
  (\<open>Inl\<close> a thrown error, \<open>Inr\<close> the \<^verbatim>\<open>data\<close> of the response) and the next state.
\<close>

type_synonym 's octokit = "request \<Rightarrow> 's \<Rightarrow> (thrown + response_data) \<times> 's"

record 's world =
  calls :: "request list"
  remote :: 's

text \<open>
  A settled promise. A rejection carries either a string (every \<^verbatim>\<open>Promise.reject\<close> of the
  client) or the thrown value itself (an exception that leaves an \<^verbatim>\<open>async\<close> method uncaught).
\<close>

datatype rejection = Str string | Raw thrown

datatype 'a promise = Resolved 'a | Rejected rejection

subsection \<open>Constants and helpers imported by the client\<close>

text \<open>
  \<^verbatim>\<open>src/constants/ErrorMessages\<close> and \<^verbatim>\<open>src/helpers/GHClientHelpers\<close> are not among the
  sources: the five messages, the key predicate and the two transport conversions are
  parameters of the model. The predicate and the conversions are taken to return for every
  string.
\<close>

record env =
  INVALID_KEY_MESSAGE :: string
  INTERNAL_ERROR_MESSAGE :: string
  GITHUB_API_ERROR_MESSAGE :: string
  OBJECT_NOT_FOUND_MESSAGE :: string
  BAD_CREDENTIALS_MESSAGE :: string
  validStorageKey :: "string \<Rightarrow> bool"
  convertStringToBase64 :: "string \<Rightarrow> string"
  convertBase64ToString :: "string \<Rightarrow> string"

subsection \<open>The client\<close>

record 's GHClient =
  owner :: string
  repo :: string
  octokit :: "'s octokit"

definition MAX_API_ATTEMPTS :: nat where
  "MAX_API_ATTEMPTS = 10"

text \<open>\<^verbatim>\<open>this.octokit.request(...)\<close>: the request is recorded and answered by the remote.\<close>

definition octokit_request ::
  "'s GHClient \<Rightarrow> request \<Rightarrow> 's world \<Rightarrow> (thrown + response_data) \<times> 's world" where
  "octokit_request this r w =
     (case octokit this r (remote w) of
        (res, s') \<Rightarrow> (res, \<lparr>calls = calls w @ [r], remote = s'\<rparr>))"

text \<open>
  The private wrappers. \<open>getObjectOctokit\<close> and \<open>deleteObjectOctokit\<close> return the promise of
  the request (their \<^verbatim>\<open>catch\<close> rethrows), so the caller's \<^verbatim>\<open>await\<close> sees the request's own
  outcome.
\<close>

definition deleteObjectOctokit ::
  "'s GHClient \<Rightarrow> string \<Rightarrow> string option \<Rightarrow> 's world \<Rightarrow> (thrown + response_data) \<times> 's world" where
  "deleteObjectOctokit this key sha' w =
     octokit_request this (DELETE (owner this) (repo this) key sha') w"

definition getObjectOctokit ::
  "'s GHClient \<Rightarrow> string \<Rightarrow> 's world \<Rightarrow> (thrown + response_data) \<times> 's world" where
  "getObjectOctokit this key w = octokit_request this (GET (owner this) (repo this) key) w"

definition listObjectsOctokit ::
  "'s GHClient \<Rightarrow> string \<Rightarrow> 's world \<Rightarrow> (thrown + response_data) \<times> 's world" where
  "listObjectsOctokit this key w = getObjectOctokit this key w"

text \<open>
  \<open>replaceObjectOctokit\<close> and \<open>uploadNewObjectOctokit\<close> await the \<open>PUT\<close> inside a
  \<^verbatim>\<open>try\<close> whose \<^verbatim>\<open>catch\<close> returns \<^verbatim>\<open>false\<close>: they never throw, and report the outcome as a
  boolean. The content sent is \<^verbatim>\<open>convertStringToBase64(value)\<close> (\<open>generateUploadParams\<close>).
\<close>

definition replaceObjectOctokit ::
  "env \<Rightarrow> 's GHClient \<Rightarrow> string \<Rightarrow> string \<Rightarrow> string \<Rightarrow> 's world \<Rightarrow> bool \<times> 's world" where
  "replaceObjectOctokit E this key val sha' w =
     (case octokit_request this
             (PUT (owner this) (repo this) key (convertStringToBase64 E val) (Some sha')) w of
        (Inl error, w') \<Rightarrow> (False, w')
      | (Inr _, w') \<Rightarrow> (True, w'))"

definition uploadNewObjectOctokit ::
  "env \<Rightarrow> 's GHClient \<Rightarrow> string \<Rightarrow> string \<Rightarrow> 's world \<Rightarrow> bool \<times> 's world" where
  "uploadNewObjectOctokit E this key val w =
     (case octokit_request this
             (PUT (owner this) (repo this) key (convertStringToBase64 E val) None) w of
        (Inl error, w') \<Rightarrow> (False, w')
      | (Inr _, w') \<Rightarrow> (True, w'))"

text \<open>
  The loop of \<open>putObject\<close>, with the loop variables \<^verbatim>\<open>success\<close> and \<^verbatim>\<open>remainingAttempts\<close>
  as arguments. The body never assigns \<^verbatim>\<open>remainingAttempts\<close>, so every recursive call
  passes it on unchanged. The loop need not end; \<open>None\<close> is a call that never settles.

  On status 404 the source calls \<open>uploadNewObjectOctokit\<close> without \<^verbatim>\<open>await\<close>: the request
  is issued before the method goes on, and its outcome is never looked at. The model issues
  the request at that point and drops the boolean.
\<close>

partial_function (option) putObject_loop ::
  "env \<Rightarrow> 's GHClient \<Rightarrow> string \<Rightarrow> string \<Rightarrow> bool \<Rightarrow> nat \<Rightarrow> 's world
     \<Rightarrow> (unit promise \<times> 's world) option" where
  "putObject_loop E this key val success remainingAttempts w =
     (if \<not> success \<and> remainingAttempts > 0 then
        (case getObjectOctokit this key w of
           (Inr data, w1) \<Rightarrow>
             (if truthy (data_sha data) then
                (case replaceObjectOctokit E this key val (the (data_sha data)) w1 of
                   (_, w2) \<Rightarrow> putObject_loop E this key val True remainingAttempts w2)
              else if isArray data then
                Some (Rejected (Str ''Cannot replace value of a folder''), w1)
              else putObject_loop E this key val True remainingAttempts w1)
         | (Inl error, w1) \<Rightarrow>
             (if \<not> isGithubApiError error then
                Some (Rejected (Str (INTERNAL_ERROR_MESSAGE E)), w1)
              else if status error = 404 then
                (case uploadNewObjectOctokit E this key val w1 of
                   (_, w2) \<Rightarrow> putObject_loop E this key val True remainingAttempts w2)
              else if status error = 401 then
                Some (Rejected (Str (BAD_CREDENTIALS_MESSAGE E)), w1)
              else putObject_loop E this key val success remainingAttempts w1))
      else if \<not> success then Some (Rejected (Str (GITHUB_API_ERROR_MESSAGE E)), w)
      else Some (Resolved (), w))"

definition putObject ::
  "env \<Rightarrow> 's GHClient \<Rightarrow> string \<Rightarrow> string \<Rightarrow> 's world \<Rightarrow> (unit promise \<times> 's world) option" where
  "putObject E this key val w =
     (if \<not> validStorageKey E key then Some (Rejected (Str (INVALID_KEY_MESSAGE E)), w)
      else putObject_loop E this key val False MAX_API_ATTEMPTS w)"

text \<open>
  The \<^verbatim>\<open>try\<close> block of \<open>removeObject\<close>: the first request that throws ends it; otherwise
  it returns \<^verbatim>\<open>content\<close> as fetched.
\<close>

definition removeObject_try ::
  "'s GHClient \<Rightarrow> string \<Rightarrow> 's world \<Rightarrow> (thrown + string option) \<times> 's world" where
  "removeObject_try this key w =
     (case getObjectOctokit this key w of
        (Inl error, w1) \<Rightarrow> (Inl error, w1)
      | (Inr data, w1) \<Rightarrow>
          (case deleteObjectOctokit this key (data_sha data) w1 of
             (Inl error, w2) \<Rightarrow> (Inl error, w2)
           | (Inr _, w2) \<Rightarrow> (Inr (data_content data), w2)))"

function removeObject_loop ::
  "env \<Rightarrow> 's GHClient \<Rightarrow> string \<Rightarrow> bool \<Rightarrow> nat \<Rightarrow> 's world \<Rightarrow> string option promise \<times> 's world" where
  "removeObject_loop E this key success remainingAttempts w =
     (if \<not> success \<and> remainingAttempts > 0 then
        (case removeObject_try this key w of
           (Inr content', w1) \<Rightarrow> (Resolved content', w1)
         | (Inl error, w1) \<Rightarrow>
             (if \<not> isGithubApiError error then
                (Rejected (Str (INTERNAL_ERROR_MESSAGE E)), w1)
              else if status error = 404 then
                removeObject_loop E this key True remainingAttempts w1
              else if status error = 401 then
                (Rejected (Str (BAD_CREDENTIALS_MESSAGE E)), w1)
              else (Rejected (Str (message error)), w1)))
      else (Rejected (Str (GITHUB_API_ERROR_MESSAGE E)), w))"
  by pat_completeness auto
termination
  by (relation "measure (\<lambda>(E, this, key, success, remainingAttempts, w). if success then 0 else 1)")
     auto

declare removeObject_loop.simps [simp del]

definition removeObject ::
  "env \<Rightarrow> 's GHClient \<Rightarrow> string \<Rightarrow> 's world \<Rightarrow> string option promise \<times> 's world" where
  "removeObject E this key w =
     (if \<not> validStorageKey E key then (Rejected (Str (INVALID_KEY_MESSAGE E)), w)
      else removeObject_loop E this key False MAX_API_ATTEMPTS w)"

definition getObject ::
  "env \<Rightarrow> 's GHClient \<Rightarrow> string \<Rightarrow> 's world \<Rightarrow> string promise \<times> 's world" where
  "getObject E this key w =
     (if \<not> validStorageKey E key then (Rejected (Str (INVALID_KEY_MESSAGE E)), w)
      else
        (case getObjectOctokit this key w of
           (Inr data, w1) \<Rightarrow>
             (if isArray data then (Rejected (Str ''Key points to a folder''), w1)
              else if truthy (data_content data) then
                (Resolved (convertBase64ToString E (the (data_content data))), w1)
              else (Rejected (Str (GITHUB_API_ERROR_MESSAGE E)), w1))
         | (Inl error, w1) \<Rightarrow>
             (if \<not> isGithubApiError error then
                (Rejected (Str (INTERNAL_ERROR_MESSAGE E)), w1)
              else if status error = 404 then
                (Rejected (Str (OBJECT_NOT_FOUND_MESSAGE E)), w1)
              else if status error = 401 then
                (Rejected (Str (BAD_CREDENTIALS_MESSAGE E)), w1)
              else (Rejected (Str (GITHUB_API_ERROR_MESSAGE E)), w1))))"

text \<open>
  \<open>listObjects\<close> has no \<^verbatim>\<open>try\<close>: an exception of the awaited request rejects the method's
  promise with the thrown value.
\<close>

definition listObjects ::
  "'s GHClient \<Rightarrow> string \<Rightarrow> 's world \<Rightarrow> file_data list promise \<times> 's world" where
  "listObjects this key w =
     (case listObjectsOctokit this key w of
        (Inl error, w1) \<Rightarrow> (Rejected (Raw error), w1)
      | (Inr data, w1) \<Rightarrow>
          (case data of
             Array items \<Rightarrow> (Resolved items, w1)
           | Object _ \<Rightarrow> (Rejected (Str ''Not a folder''), w1)))"

subsection \<open>An instance of the imported helpers\<close>

text \<open>
  Modelled from the spec: \<^verbatim>\<open>convertStringToBase64\<close> and \<^verbatim>\<open>convertBase64ToString\<close> of
  \<^verbatim>\<open>src/helpers/GHClientHelpers\<close> are not among the sources; the spec calls them the
  standard base64 transport encoding of the value and its decoding. A string is taken as the
  sequence of its bytes; three bytes give four characters of the alphabet, and a last group
  of one or two bytes is padded with \<^verbatim>\<open>=\<close>. Decoding skips every character outside the
  alphabet (padding, line breaks).
\<close>

definition base64_alphabet :: string where
  "base64_alphabet = ''ABCDEFGHIJKLMNOPQRSTUVWXYZabcdefghijklmnopqrstuvwxyz0123456789+/''"

definition sextet_char :: "nat \<Rightarrow> char" where
  "sextet_char n = base64_alphabet ! n"

fun index_of :: "char \<Rightarrow> string \<Rightarrow> nat option" where
  "index_of ch [] = None"
| "index_of ch (x # xs) =
     (if ch = x then Some 0 else (case index_of ch xs of None \<Rightarrow> None | Some i \<Rightarrow> Some (Suc i)))"

definition char_sextet :: "char \<Rightarrow> nat option" where
  "char_sextet ch = index_of ch base64_alphabet"

fun encode_octets :: "nat list \<Rightarrow> string" where
  "encode_octets (a # b # c # rest) =
     sextet_char (a div 4) # sextet_char (a mod 4 * 16 + b div 16)
       # sextet_char (b mod 16 * 4 + c div 64) # sextet_char (c mod 64) # encode_octets rest"
| "encode_octets [a, b] =
     [sextet_char (a div 4), sextet_char (a mod 4 * 16 + b div 16),
      sextet_char (b mod 16 * 4), CHR ''='']"
| "encode_octets [a] =
     [sextet_char (a div 4), sextet_char (a mod 4 * 16), CHR ''='', CHR ''='']"
| "encode_octets [] = []"

fun decode_sextets :: "nat list \<Rightarrow> nat list" where
  "decode_sextets (p # q # r # s # rest) =
     (p * 4 + q div 16) # (q mod 16 * 16 + r div 4) # (r mod 4 * 64 + s) # decode_sextets rest"
| "decode_sextets [p, q, r] = [p * 4 + q div 16, q mod 16 * 16 + r div 4]"
| "decode_sextets [p, q] = [p * 4 + q div 16]"
| "decode_sextets [p] = []"
| "decode_sextets [] = []"

definition base64_encode :: "string \<Rightarrow> string" where
  "base64_encode s = encode_octets (map of_char s)"

definition base64_decode :: "string \<Rightarrow> string" where
  "base64_decode s = map char_of (decode_sextets (List.map_filter char_sextet s))"

text \<open>
  Modelled from the spec: \<^verbatim>\<open>validStorageKey\<close> is not among the sources either; the spec
  asks for a key that is ``non-empty, no disallowed characters/traversal sequences'' and
  does not list the characters. This instance refuses the empty key and every key with
  the traversal sequence \<^verbatim>\<open>..\<close> in it.
\<close>

fun has_traversal :: "string \<Rightarrow> bool" where
  "has_traversal (a # b # rest) = ((a = CHR ''.'' \<and> b = CHR ''.'') \<or> has_traversal (b # rest))"
| "has_traversal [a] = False"
| "has_traversal [] = False"

definition exampleValidKey :: "string \<Rightarrow> bool" where
  "exampleValidKey key = (key \<noteq> [] \<and> \<not> has_traversal key)"

text \<open>
  Modelled from the spec: the texts of the five messages of \<^verbatim>\<open>src/constants/ErrorMessages\<close>
  are not among the sources; the instance gives each error of the spec's taxonomy a text
  of its own.
\<close>

definition exampleEnv :: env where
  "exampleEnv =
     \<lparr>INVALID_KEY_MESSAGE = ''Invalid key'',
      INTERNAL_ERROR_MESSAGE = ''Internal error'',
      GITHUB_API_ERROR_MESSAGE = ''GitHub API error'',
      OBJECT_NOT_FOUND_MESSAGE = ''Object not found'',
      BAD_CREDENTIALS_MESSAGE = ''Bad credentials'',
      validStorageKey = exampleValidKey,
      convertStringToBase64 = base64_encode,
      convertBase64ToString = base64_decode\<rparr>"

subsection \<open>Substitutes for the remote service\<close>

text \<open>
  Modelled from the spec: the remote service is an external collaborator. Its contents
  endpoint reads a path (a file with its digest and content, a folder as a collection, or
  not found), creates or updates a file (an update needs the current digest) and deletes a
  file (needs the digest). A path holds a file, with its transport-encoded content, or a
  folder, with its listing; the digest of a file is a fixed function of its content.
\<close>

datatype entry = FileEntry string | FolderEntry "file_data list"

type_synonym repository = "string \<Rightarrow> entry option"

definition blob_sha :: "string \<Rightarrow> string" where
  "blob_sha c = ''blob:'' @ c"

text \<open>The response to a successful write: the digest of what was written.\<close>

definition written :: "string \<Rightarrow> response_data" where
  "written c = Object \<lparr>sha = Some (blob_sha c), content = None\<rparr>"

fun memoryOctokit :: "repository octokit" where
  "memoryOctokit (GET ow rp path) s =
     (case s path of
        None \<Rightarrow> (Inl (GithubApiError 404 ''Not Found''), s)
      | Some (FileEntry c) \<Rightarrow> (Inr (Object \<lparr>sha = Some (blob_sha c), content = Some c\<rparr>), s)
      | Some (FolderEntry items) \<Rightarrow> (Inr (Array items), s))"
| "memoryOctokit (PUT ow rp path c sha') s =
     (case s path of
        None \<Rightarrow> (Inr (written c), s(path := Some (FileEntry c)))
      | Some (FileEntry old) \<Rightarrow>
          (if sha' = Some (blob_sha old) then (Inr (written c), s(path := Some (FileEntry c)))
           else if sha' = None then (Inl (GithubApiError 422 ''sha was not supplied''), s)
           else (Inl (GithubApiError 409 ''sha does not match''), s))
      | Some (FolderEntry items) \<Rightarrow> (Inl (GithubApiError 422 ''path is a folder''), s))"
| "memoryOctokit (DELETE ow rp path sha') s =
     (case s path of
        None \<Rightarrow> (Inl (GithubApiError 404 ''Not Found''), s)
      | Some (FileEntry old) \<Rightarrow>
          (if sha' = Some (blob_sha old) then (Inr (Object \<lparr>sha = None, content = None\<rparr>), s(path := None))
           else if sha' = None then (Inl (GithubApiError 422 ''sha was not supplied''), s)
           else (Inl (GithubApiError 409 ''sha does not match''), s))
      | Some (FolderEntry items) \<Rightarrow> (Inl (GithubApiError 422 ''path is a folder''), s))"

text \<open>A remote on which every request fails with the same error.\<close>

definition failingOctokit :: "thrown \<Rightarrow> 's octokit" where
  "failingOctokit error r s = (Inl error, s)"

text \<open>A remote that answers reads and fails every write with the given error.\<close>

definition denyWrites :: "thrown \<Rightarrow> 's octokit \<Rightarrow> 's octokit" where
  "denyWrites error oct r s = (if isWrite r then (Inl error, s) else oct r s)"

text \<open>
  The client as the constructor leaves it, for the owner and repository of the spec's
  scenario, and the world before its first request.
\<close>

definition client :: "'s octokit \<Rightarrow> 's GHClient" where
  "client oct = \<lparr>owner = ''acme'', repo = ''data'', octokit = oct\<rparr>"

definition start :: "'s \<Rightarrow> 's world" where
  "start s = \<lparr>calls = [], remote = s\<rparr>"

section \<open>Properties\<close>

subsection \<open>Unfolding the requests and the loops\<close>

lemma getObjectOctokit_eq:
  "octokit this (GET (owner this) (repo this) key) (remote w) = (res, s') \<Longrightarrow>
   getObjectOctokit this key w =
     (res, \<lparr>calls = calls w @ [GET (owner this) (repo this) key], remote = s'\<rparr>)"
  by (simp add: getObjectOctokit_def octokit_request_def)

text \<open>Once \<^verbatim>\<open>success\<close> is set the loop of \<open>putObject\<close> is left and the promise resolves.\<close>

lemma putObject_loop_done:
  "putObject_loop E this key val True n w = Some (Resolved (), w)"
  by (subst putObject_loop.simps) simp

text \<open>
  The first pass through the loop of \<open>putObject\<close>: every branch settles, except the one
  for an API error whose status is neither 404 nor 401, which starts the loop again with
  the same \<^verbatim>\<open>remainingAttempts\<close>.
\<close>

lemma putObject_loop_enter:
  "putObject_loop E this key val False MAX_API_ATTEMPTS w =
     (case getObjectOctokit this key w of
        (Inr data, w1) \<Rightarrow>
          (if truthy (data_sha data) then
             Some (Resolved (), snd (replaceObjectOctokit E this key val (the (data_sha data)) w1))
           else if isArray data then
             Some (Rejected (Str ''Cannot replace value of a folder''), w1)
           else Some (Resolved (), w1))
      | (Inl error, w1) \<Rightarrow>
          (if \<not> isGithubApiError error then
             Some (Rejected (Str (INTERNAL_ERROR_MESSAGE E)), w1)
           else if status error = 404 then
             Some (Resolved (), snd (uploadNewObjectOctokit E this key val w1))
           else if status error = 401 then
             Some (Rejected (Str (BAD_CREDENTIALS_MESSAGE E)), w1)
           else putObject_loop E this key val False MAX_API_ATTEMPTS w1))"
  by (subst putObject_loop.simps)
     (simp add: MAX_API_ATTEMPTS_def putObject_loop_done split: prod.splits sum.splits)

text \<open>
  The loop of \<open>removeObject\<close> is left with \<^verbatim>\<open>success\<close> set only to reach the rejection
  that follows it.
\<close>

lemma removeObject_loop_done:
  "removeObject_loop E this key True n w = (Rejected (Str (GITHUB_API_ERROR_MESSAGE E)), w)"
  by (subst removeObject_loop.simps) simp

lemma removeObject_loop_enter:
  "removeObject_loop E this key False MAX_API_ATTEMPTS w =
     (case removeObject_try this key w of
        (Inr content', w1) \<Rightarrow> (Resolved content', w1)
      | (Inl error, w1) \<Rightarrow>
          (if \<not> isGithubApiError error then (Rejected (Str (INTERNAL_ERROR_MESSAGE E)), w1)
           else if status error = 404 then (Rejected (Str (GITHUB_API_ERROR_MESSAGE E)), w1)
           else if status error = 401 then (Rejected (Str (BAD_CREDENTIALS_MESSAGE E)), w1)
           else (Rejected (Str (message error)), w1)))"
  by (subst removeObject_loop.simps)
     (simp add: MAX_API_ATTEMPTS_def removeObject_loop_done split: prod.splits sum.splits)

subsection \<open>Removing a key that does not exist\<close>

text \<open>
  C1. The specification has \<open>removeObject\<close> resolve with no value when the fetch fails
  with status 404. The code sets \<^verbatim>\<open>success = true\<close> and leaves the loop, and the statement
  after the loop rejects unconditionally: for a valid key whose fetch fails with status 404,
  \<open>removeObject\<close> rejects with the generic API-error message after that one request.
\<close>

theorem removeObject_missing_key_rejects:
  assumes "validStorageKey E key"
    and "octokit this (GET (owner this) (repo this) key) (remote w) =
           (Inl (GithubApiError 404 m), s')"
  shows "removeObject E this key w =
     (Rejected (Str (GITHUB_API_ERROR_MESSAGE E)),
      \<lparr>calls = calls w @ [GET (owner this) (repo this) key], remote = s'\<rparr>)"
  using assms(1)
  by (simp add: removeObject_def removeObject_loop_enter removeObject_try_def
      getObjectOctokit_eq [OF assms(2)])

theorem removeObject_missing_key_rejects_witness:
  "removeObject exampleEnv (client memoryOctokit) ''notes/a.txt'' (start (\<lambda>_. None)) =
     (Rejected (Str ''GitHub API error''),
      \<lparr>calls = [GET ''acme'' ''data'' ''notes/a.txt''], remote = (\<lambda>_. None)\<rparr>)"
  using removeObject_missing_key_rejects [of exampleEnv "''notes/a.txt''" "client memoryOctokit"
      "start (\<lambda>_. None)" "''Not Found''" "\<lambda>_. None"]
  by (simp add: exampleEnv_def exampleValidKey_def client_def start_def)

subsection \<open>Invalid keys\<close>

text \<open>
  C4. For every key that fails the validity predicate, \<open>putObject\<close>, \<open>getObject\<close> and
  \<open>removeObject\<close> reject with the invalid-key message and leave the world as it was: no
  request has been issued.
\<close>

theorem invalid_key_rejected_without_request:
  assumes "\<not> validStorageKey E key"
  shows "putObject E this key val w = Some (Rejected (Str (INVALID_KEY_MESSAGE E)), w) \<and>
         getObject E this key w = (Rejected (Str (INVALID_KEY_MESSAGE E)), w) \<and>
         removeObject E this key w = (Rejected (Str (INVALID_KEY_MESSAGE E)), w)"
  using assms by (simp add: putObject_def getObject_def removeObject_def)

theorem invalid_key_rejected_without_request_witness:
  "\<not> validStorageKey exampleEnv ''../secret'' \<and>
   putObject exampleEnv (client memoryOctokit) ''../secret'' ''v'' (start (\<lambda>_. None)) =
     Some (Rejected (Str ''Invalid key''), \<lparr>calls = [], remote = (\<lambda>_. None)\<rparr>) \<and>
   getObject exampleEnv (client memoryOctokit) ''../secret'' (start (\<lambda>_. None)) =
     (Rejected (Str ''Invalid key''), \<lparr>calls = [], remote = (\<lambda>_. None)\<rparr>) \<and>
   removeObject exampleEnv (client memoryOctokit) ''../secret'' (start (\<lambda>_. None)) =
     (Rejected (Str ''Invalid key''), \<lparr>calls = [], remote = (\<lambda>_. None)\<rparr>)"
  using invalid_key_rejected_without_request [of exampleEnv "''../secret''"
      "client memoryOctokit" "''v''" "start (\<lambda>_. None)"]
  by (simp add: exampleEnv_def exampleValidKey_def start_def)

subsection \<open>Writing over a folder\<close>

text \<open>
  C6. For every valid key whose fetch succeeds with a collection, \<open>putObject\<close> rejects with
  the folder-conflict text, and the fetch is the only request it has issued: no write
  reaches the remote.
\<close>

theorem putObject_folder_conflict:
  assumes "validStorageKey E key"
    and "octokit this (GET (owner this) (repo this) key) (remote w) = (Inr (Array items), s')"
  shows "putObject E this key val w =
     Some (Rejected (Str ''Cannot replace value of a folder''),
           \<lparr>calls = calls w @ [GET (owner this) (repo this) key], remote = s'\<rparr>)"
  using assms(1)
  by (simp add: putObject_def putObject_loop_enter getObjectOctokit_eq [OF assms(2)])

theorem putObject_folder_conflict_witness:
  "putObject exampleEnv (client memoryOctokit) ''notes'' ''hello''
     (start ((\<lambda>_. None)
        (''notes'' := Some (FolderEntry [\<lparr>sha = Some ''blob:aGk='', content = None\<rparr>])))) =
   Some (Rejected (Str ''Cannot replace value of a folder''),
         \<lparr>calls = [GET ''acme'' ''data'' ''notes''],
          remote = (\<lambda>_. None)
            (''notes'' := Some (FolderEntry [\<lparr>sha = Some ''blob:aGk='', content = None\<rparr>]))\<rparr>)"
  using putObject_folder_conflict [of exampleEnv "''notes''" "client memoryOctokit"
      "start ((\<lambda>_. None)
         (''notes'' := Some (FolderEntry [\<lparr>sha = Some ''blob:aGk='', content = None\<rparr>])))"
      "[\<lparr>sha = Some ''blob:aGk='', content = None\<rparr>]"
      "(\<lambda>_. None)(''notes'' := Some (FolderEntry [\<lparr>sha = Some ''blob:aGk='', content = None\<rparr>]))"
      "''hello''"]
  by (simp add: exampleEnv_def exampleValidKey_def client_def start_def)

subsection \<open>Removing a file\<close>

text \<open>
  C7. For every valid key whose fetch succeeds with a file, \<open>removeObject\<close> issues the
  delete request with the digest it fetched and, when the remote carries that request out,
  resolves with the content exactly as fetched: \<^verbatim>\<open>convertBase64ToString\<close> is not applied.
\<close>

theorem removeObject_returns_encoded_content:
  assumes "validStorageKey E key"
    and "octokit this (GET (owner this) (repo this) key) (remote w) = (Inr (Object d), s1)"
    and "octokit this (DELETE (owner this) (repo this) key (sha d)) s1 = (Inr r, s2)"
  shows "removeObject E this key w =
     (Resolved (content d),
      \<lparr>calls = calls w @ [GET (owner this) (repo this) key,
                          DELETE (owner this) (repo this) key (sha d)],
       remote = s2\<rparr>)"
  using assms(1,3)
  by (simp add: removeObject_def removeObject_loop_enter removeObject_try_def
      getObjectOctokit_eq [OF assms(2)] deleteObjectOctokit_def octokit_request_def)

theorem removeObject_returns_encoded_content_witness:
  "removeObject exampleEnv (client memoryOctokit) ''notes/a.txt''
     (start ((\<lambda>_. None)(''notes/a.txt'' := Some (FileEntry ''aGVsbG8='')))) =
   (Resolved (Some ''aGVsbG8=''),
    \<lparr>calls = [GET ''acme'' ''data'' ''notes/a.txt'',
              DELETE ''acme'' ''data'' ''notes/a.txt'' (Some ''blob:aGVsbG8='')],
     remote = (\<lambda>_. None)\<rparr>) \<and>
   convertBase64ToString exampleEnv ''aGVsbG8='' = ''hello''"
proof -
  have dec: "base64_decode ''aGVsbG8='' = ''hello''"
    by code_simp
  show ?thesis
    using removeObject_returns_encoded_content [of exampleEnv "''notes/a.txt''"
        "client memoryOctokit"
        "start ((\<lambda>_. None)(''notes/a.txt'' := Some (FileEntry ''aGVsbG8='')))"
        "\<lparr>sha = Some ''blob:aGVsbG8='', content = Some ''aGVsbG8=''\<rparr>"
        "(\<lambda>_. None)(''notes/a.txt'' := Some (FileEntry ''aGVsbG8=''))"
        "Object \<lparr>sha = None, content = None\<rparr>" "\<lambda>_. None"] dec
    by (simp add: exampleEnv_def exampleValidKey_def client_def start_def blob_sha_def)
qed

text \<open>
  On the in-memory substitute the delete is carried out: the key that held a file holds
  nothing afterwards, and reads as not found.
\<close>

lemma remove_file_memory:
  assumes "validStorageKey E key" and "s key = Some (FileEntry c)"
  shows "removeObject E (client memoryOctokit) key (start s) =
     (Resolved (Some c),
      \<lparr>calls = [GET ''acme'' ''data'' key, DELETE ''acme'' ''data'' key (Some (blob_sha c))],
       remote = s(key := None)\<rparr>)"
  using assms
  by (simp add: removeObject_def removeObject_loop_enter removeObject_try_def
      getObjectOctokit_def deleteObjectOctokit_def octokit_request_def client_def start_def)

lemma get_missing_memory:
  assumes "validStorageKey E key" and "remote w key = None"
  shows "getObject E (client memoryOctokit) key w =
     (Rejected (Str (OBJECT_NOT_FOUND_MESSAGE E)),
      \<lparr>calls = calls w @ [GET ''acme'' ''data'' key], remote = remote w\<rparr>)"
  using assms
  by (simp add: getObject_def getObjectOctokit_def octokit_request_def client_def)

subsection \<open>Reading an empty file\<close>

text \<open>
  C10. For every valid key whose fetch succeeds with a file of empty content, \<open>getObject\<close>
  rejects with the generic API-error message: the test \<^verbatim>\<open>if (content)\<close> takes the empty
  string for an absent content.
\<close>

theorem getObject_empty_content_rejected:
  assumes "validStorageKey E key"
    and "octokit this (GET (owner this) (repo this) key) (remote w) = (Inr (Object d), s')"
    and "content d = Some []"
  shows "getObject E this key w =
     (Rejected (Str (GITHUB_API_ERROR_MESSAGE E)),
      \<lparr>calls = calls w @ [GET (owner this) (repo this) key], remote = s'\<rparr>)"
  using assms(1,3)
  by (simp add: getObject_def getObjectOctokit_eq [OF assms(2)])

theorem getObject_empty_content_rejected_witness:
  "getObject exampleEnv (client memoryOctokit) ''notes/empty.txt''
     (start ((\<lambda>_. None)(''notes/empty.txt'' := Some (FileEntry [])))) =
   (Rejected (Str ''GitHub API error''),
    \<lparr>calls = [GET ''acme'' ''data'' ''notes/empty.txt''],
     remote = (\<lambda>_. None)(''notes/empty.txt'' := Some (FileEntry []))\<rparr>)"
  using getObject_empty_content_rejected [of exampleEnv "''notes/empty.txt''"
      "client memoryOctokit"
      "start ((\<lambda>_. None)(''notes/empty.txt'' := Some (FileEntry [])))"
      "\<lparr>sha = Some ''blob:'', content = Some []\<rparr>"
      "(\<lambda>_. None)(''notes/empty.txt'' := Some (FileEntry []))"]
  by (simp add: exampleEnv_def exampleValidKey_def client_def start_def blob_sha_def)

subsection \<open>Listing\<close>

text \<open>
  C9. \<open>listObjects\<close> takes no key predicate and classifies nothing: for every key it issues
  the fetch, and when the fetch throws, the promise is rejected with the thrown value
  itself, whatever it is.
\<close>

theorem listObjects_unvalidated_unclassified:
  "calls (snd (listObjects this key w)) = calls w @ [GET (owner this) (repo this) key] \<and>
   (\<forall>error s'. octokit this (GET (owner this) (repo this) key) (remote w) = (Inl error, s') \<longrightarrow>
      listObjects this key w =
        (Rejected (Raw error),
         \<lparr>calls = calls w @ [GET (owner this) (repo this) key], remote = s'\<rparr>))"
  by (auto simp add: listObjects_def listObjectsOctokit_def getObjectOctokit_def
      octokit_request_def split: prod.splits sum.splits response_data.splits)

theorem listObjects_unvalidated_unclassified_witness:
  "\<not> validStorageKey exampleEnv ''../secret'' \<and>
   listObjects (client (failingOctokit (GithubApiError 401 ''Bad credentials''))) ''../secret''
     (start ()) =
   (Rejected (Raw (GithubApiError 401 ''Bad credentials'')),
    \<lparr>calls = [GET ''acme'' ''data'' ''../secret''], remote = ()\<rparr>) \<and>
   listObjects (client (failingOctokit (OtherError ''socket hang up''))) [] (start ()) =
   (Rejected (Raw (OtherError ''socket hang up'')),
    \<lparr>calls = [GET ''acme'' ''data'' []], remote = ()\<rparr>)"
  using listObjects_unvalidated_unclassified
      [of "client (failingOctokit (GithubApiError 401 ''Bad credentials''))" "''../secret''"
        "start ()"]
    listObjects_unvalidated_unclassified
      [of "client (failingOctokit (OtherError ''socket hang up''))" "[]" "start ()"]
  by (simp add: exampleEnv_def exampleValidKey_def client_def start_def failingOctokit_def)

subsection \<open>The retry loops\<close>

text \<open>
  The loop of \<open>removeObject\<close> is a total function, and its body runs at most once: a call
  issues at most the fetch and the delete.
\<close>

lemma removeObject_at_most_two_requests:
  "length (calls (snd (removeObject E this key w))) \<le> length (calls w) + 2"
  by (simp add: removeObject_def removeObject_loop_enter removeObject_try_def
      getObjectOctokit_def deleteObjectOctokit_def octokit_request_def
      split: prod.splits sum.splits)

text \<open>
  The loop of \<open>putObject\<close> goes round again whenever the fetch fails with an API error
  whose status is neither 404 nor 401, and nothing counts the rounds: while the remote
  keeps answering so, no round settles the promise.
\<close>

lemma putObject_loop_never_settles:
  fixes this :: "'s GHClient"
  assumes fails: "\<forall>s. \<exists>st m s'. octokit this (GET (owner this) (repo this) key) s =
                      (Inl (GithubApiError st m), s') \<and> st \<noteq> 404 \<and> st \<noteq> 401"
    and pos: "0 < n"
  shows "putObject_loop E this key val False n w = None"
proof (rule ccontr)
  assume "putObject_loop E this key val False n w \<noteq> None"
  then obtain y where y: "putObject_loop E this key val False n w = Some y"
    by auto
  have "\<not> (this = this \<and> key = key \<and> \<not> False \<and> 0 < n)"
  proof (rule putObject_loop.raw_induct
      [where P = "\<lambda>E' this' key' val' success n' w' y'.
                    \<not> (this' = this \<and> key' = key \<and> \<not> success \<and> 0 < n')", OF _ y])
    fix loop :: "env \<Rightarrow> 's GHClient \<Rightarrow> string \<Rightarrow> string \<Rightarrow> bool \<Rightarrow> nat \<Rightarrow> 's world
                   \<Rightarrow> (unit promise \<times> 's world) option"
      and E' this' key' val' success n' w' y'
    assume IH: "\<And>E' this' key' val' success n' w' y'.
        loop E' this' key' val' success n' w' = Some y' \<Longrightarrow>
          \<not> (this' = this \<and> key' = key \<and> \<not> success \<and> 0 < n')"
    assume step: "(if \<not> success \<and> 0 < n'
      then case getObjectOctokit this' key' w' of
           (Inl error, w1) \<Rightarrow>
             if \<not> isGithubApiError error
             then Some (Rejected (Str (INTERNAL_ERROR_MESSAGE E')), w1)
             else if status error = 404
                  then case uploadNewObjectOctokit E' this' key' val' w1 of
                       (x, w2) \<Rightarrow> loop E' this' key' val' True n' w2
                  else if status error = 401
                       then Some (Rejected (Str (BAD_CREDENTIALS_MESSAGE E')), w1)
                       else loop E' this' key' val' success n' w1
           | (Inr data, w1) \<Rightarrow>
               if truthy (data_sha data)
               then case replaceObjectOctokit E' this' key' val' (the (data_sha data)) w1 of
                    (x, w2) \<Rightarrow> loop E' this' key' val' True n' w2
               else if isArray data
                    then Some (Rejected (Str ''Cannot replace value of a folder''), w1)
                    else loop E' this' key' val' True n' w1
      else if \<not> success
           then Some (Rejected (Str (GITHUB_API_ERROR_MESSAGE E')), w')
           else Some (Resolved (), w')) = Some y'"
    show "\<not> (this' = this \<and> key' = key \<and> \<not> success \<and> 0 < n')"
    proof
      assume a: "this' = this \<and> key' = key \<and> \<not> success \<and> 0 < n'"
      from fails obtain st m s' where
        g: "octokit this (GET (owner this) (repo this) key) (remote w') =
              (Inl (GithubApiError st m), s')" and st: "st \<noteq> 404" "st \<noteq> 401"
        by blast
      from step a st
      have "loop E' this key val' False n'
              \<lparr>calls = calls w' @ [GET (owner this) (repo this) key], remote = s'\<rparr> = Some y'"
        by (simp add: getObjectOctokit_eq [OF g])
      from IH [OF this] a show False
        by simp
    qed
  qed
  with pos show False
    by simp
qed

text \<open>
  C2. The specification has the loops run at most \<open>MAX_API_ATTEMPTS\<close> times, every call
  end, and a call that has used up its attempts reject with the generic API-error message.
  The code never decrements \<^verbatim>\<open>remainingAttempts\<close>: for a valid key, against a remote whose
  fetch of the key always fails with an API error other than 404 and 401, \<open>putObject\<close>
  never settles.
\<close>

theorem putObject_retries_without_bound:
  assumes "validStorageKey E key"
    and "\<forall>s. \<exists>st m s'. octokit this (GET (owner this) (repo this) key) s =
                      (Inl (GithubApiError st m), s') \<and> st \<noteq> 404 \<and> st \<noteq> 401"
  shows "putObject E this key val w = None"
  using assms(1) putObject_loop_never_settles [OF assms(2), of MAX_API_ATTEMPTS]
  by (simp add: putObject_def MAX_API_ATTEMPTS_def)

theorem putObject_retries_without_bound_witness:
  "putObject exampleEnv (client (failingOctokit (GithubApiError 500 ''Server Error'')))
     ''notes/a.txt'' ''hello'' (start ()) = None"
  using putObject_retries_without_bound [of exampleEnv "''notes/a.txt''"
      "client (failingOctokit (GithubApiError 500 ''Server Error''))" "''hello''" "start ()"]
  by (simp add: exampleEnv_def exampleValidKey_def client_def failingOctokit_def)

subsection \<open>Bad credentials\<close>

text \<open>
  When the first fetch fails with status 401, \<open>putObject\<close>, \<open>getObject\<close> and
  \<open>removeObject\<close> reject with the bad-credentials message, and that fetch is the only
  request they have issued.
\<close>

lemma bad_credentials_on_fetch:
  assumes "validStorageKey E key"
    and "octokit this (GET (owner this) (repo this) key) (remote w) =
           (Inl (GithubApiError 401 m), s')"
  shows "putObject E this key val w =
           Some (Rejected (Str (BAD_CREDENTIALS_MESSAGE E)),
                 \<lparr>calls = calls w @ [GET (owner this) (repo this) key], remote = s'\<rparr>)"
    and "getObject E this key w =
           (Rejected (Str (BAD_CREDENTIALS_MESSAGE E)),
            \<lparr>calls = calls w @ [GET (owner this) (repo this) key], remote = s'\<rparr>)"
    and "removeObject E this key w =
           (Rejected (Str (BAD_CREDENTIALS_MESSAGE E)),
            \<lparr>calls = calls w @ [GET (owner this) (repo this) key], remote = s'\<rparr>)"
  using assms(1)
  by (simp_all add: putObject_def putObject_loop_enter getObject_def removeObject_def
      removeObject_loop_enter removeObject_try_def getObjectOctokit_eq [OF assms(2)])

text \<open>
  C3. The specification has every operation, \<open>listObjects\<close> included, reject with the
  fixed bad-credentials message when the remote fails with status 401. \<open>listObjects\<close>
  awaits the fetch outside any \<^verbatim>\<open>try\<close>: when the fetch fails with status 401 its promise
  is rejected with the thrown error, which is not the bad-credentials message.
\<close>

theorem listObjects_bad_credentials_unmapped:
  assumes "octokit this (GET (owner this) (repo this) key) (remote w) =
             (Inl (GithubApiError 401 m), s')"
  shows "listObjects this key w =
           (Rejected (Raw (GithubApiError 401 m)),
            \<lparr>calls = calls w @ [GET (owner this) (repo this) key], remote = s'\<rparr>) \<and>
         fst (listObjects this key w) \<noteq> Rejected (Str (BAD_CREDENTIALS_MESSAGE E))"
  by (simp add: listObjects_def listObjectsOctokit_def getObjectOctokit_eq [OF assms])

theorem listObjects_bad_credentials_unmapped_witness:
  "listObjects (client (failingOctokit (GithubApiError 401 ''Bad credentials''))) ''notes''
     (start ()) =
   (Rejected (Raw (GithubApiError 401 ''Bad credentials'')),
    \<lparr>calls = [GET ''acme'' ''data'' ''notes''], remote = ()\<rparr>) \<and>
   fst (listObjects (client (failingOctokit (GithubApiError 401 ''Bad credentials''))) ''notes''
     (start ())) \<noteq> Rejected (Str (BAD_CREDENTIALS_MESSAGE exampleEnv))"
  using listObjects_bad_credentials_unmapped
      [of "client (failingOctokit (GithubApiError 401 ''Bad credentials''))" "''notes''"
        "start ()" "''Bad credentials''" "()" exampleEnv]
  by (simp add: client_def start_def failingOctokit_def)

subsection \<open>Writes that fail\<close>

text \<open>
  Both wrappers of \<open>PUT\<close> turn any thrown value into \<^verbatim>\<open>false\<close>.
\<close>

lemma replaceObjectOctokit_swallows:
  "octokit this (PUT (owner this) (repo this) key (convertStringToBase64 E val) (Some sha'))
     (remote w) = (Inl error, s') \<Longrightarrow>
   replaceObjectOctokit E this key val sha' w =
     (False,
      \<lparr>calls = calls w @
         [PUT (owner this) (repo this) key (convertStringToBase64 E val) (Some sha')],
       remote = s'\<rparr>)"
  by (simp add: replaceObjectOctokit_def octokit_request_def)

lemma uploadNewObjectOctokit_swallows:
  "octokit this (PUT (owner this) (repo this) key (convertStringToBase64 E val) None)
     (remote w) = (Inl error, s') \<Longrightarrow>
   uploadNewObjectOctokit E this key val w =
     (False,
      \<lparr>calls = calls w @ [PUT (owner this) (repo this) key (convertStringToBase64 E val) None],
       remote = s'\<rparr>)"
  by (simp add: uploadNewObjectOctokit_def octokit_request_def)

text \<open>
  C8. \<open>putObject\<close> never looks at the boolean of \<open>replaceObjectOctokit\<close> and of
  \<open>uploadNewObjectOctokit\<close>: for every valid key, on the path that creates a file (the
  fetch fails with status 404) and on the path that replaces one (the fetch gives an object
  with a digest), the promise resolves although the \<open>PUT\<close> has thrown, whatever it threw.
\<close>

theorem putObject_resolves_although_write_failed:
  assumes valid: "validStorageKey E key"
    and fetch: "octokit this (GET (owner this) (repo this) key) (remote w) = (fetched, s1)"
    and path: "(fetched = Inl (GithubApiError 404 m) \<and> sha' = None) \<or>
               (\<exists>d. fetched = Inr (Object d) \<and> truthy (sha d) \<and> sha' = sha d)"
    and wfail: "octokit this
                  (PUT (owner this) (repo this) key (convertStringToBase64 E val) sha') s1 =
                (Inl error, s2)"
  shows "putObject E this key val w =
     Some (Resolved (),
           \<lparr>calls = calls w @ [GET (owner this) (repo this) key,
                               PUT (owner this) (repo this) key (convertStringToBase64 E val) sha'],
            remote = s2\<rparr>)"
  using path
proof
  assume "fetched = Inl (GithubApiError 404 m) \<and> sha' = None"
  with valid wfail show ?thesis
    by (simp add: putObject_def putObject_loop_enter getObjectOctokit_eq [OF fetch]
        uploadNewObjectOctokit_swallows)
next
  assume "\<exists>d. fetched = Inr (Object d) \<and> truthy (sha d) \<and> sha' = sha d"
  then obtain d where d: "fetched = Inr (Object d)" "truthy (sha d)" "sha' = sha d"
    by blast
  then obtain h where h: "sha d = Some h"
    by (cases "sha d") auto
  with valid wfail d show ?thesis
    by (simp add: putObject_def putObject_loop_enter getObjectOctokit_eq [OF fetch]
        replaceObjectOctokit_swallows)
qed

theorem putObject_resolves_although_write_failed_witness:
  "putObject exampleEnv (client (denyWrites (GithubApiError 403 ''Forbidden'') memoryOctokit))
     ''notes/a.txt'' ''hello'' (start (\<lambda>_. None)) =
   Some (Resolved (),
         \<lparr>calls = [GET ''acme'' ''data'' ''notes/a.txt'',
                   PUT ''acme'' ''data'' ''notes/a.txt'' ''aGVsbG8='' None],
          remote = (\<lambda>_. None)\<rparr>)"
proof -
  have enc: "base64_encode ''hello'' = ''aGVsbG8=''"
    by code_simp
  show ?thesis
    using putObject_resolves_although_write_failed [of exampleEnv "''notes/a.txt''"
        "client (denyWrites (GithubApiError 403 ''Forbidden'') memoryOctokit)"
        "start (\<lambda>_. None)" "Inl (GithubApiError 404 ''Not Found'')" "\<lambda>_. None"
        "''Not Found''" None "''hello''" "GithubApiError 403 ''Forbidden''" "\<lambda>_. None"] enc
    by (simp add: exampleEnv_def exampleValidKey_def client_def start_def denyWrites_def)
qed

subsection \<open>Writing, then reading\<close>

text \<open>On the in-memory substitute, a valid key that holds nothing is created by one \<open>PUT\<close>.\<close>

lemma put_new_key_memory:
  assumes "validStorageKey E key" and "s key = None"
  shows "putObject E (client memoryOctokit) key val (start s) =
     Some (Resolved (),
           \<lparr>calls = [GET ''acme'' ''data'' key,
                     PUT ''acme'' ''data'' key (convertStringToBase64 E val) None],
            remote = s(key := Some (FileEntry (convertStringToBase64 E val)))\<rparr>)"
  using assms
  by (simp add: putObject_def putObject_loop_enter getObjectOctokit_def
      uploadNewObjectOctokit_def octokit_request_def client_def start_def written_def)

lemma get_file_memory:
  assumes "validStorageKey E key" and "remote w key = Some (FileEntry c)"
  shows "getObject E (client memoryOctokit) key w =
     ((if c \<noteq> [] then Resolved (convertBase64ToString E c)
       else Rejected (Str (GITHUB_API_ERROR_MESSAGE E))),
      \<lparr>calls = calls w @ [GET ''acme'' ''data'' key], remote = remote w\<rparr>)"
  using assms
  by (simp add: getObject_def getObjectOctokit_def octokit_request_def client_def)

text \<open>
  C5. The specification has \<open>putObject\<close> followed by \<open>getObject\<close> give the value back,
  for every valid key that does not exist and every string. For a value whose encoding is
  empty (the empty string, under base64) \<open>putObject\<close> resolves and the file is stored
  with empty content, which \<open>getObject\<close> takes for no content: it rejects with the
  generic API-error message.
\<close>

theorem put_then_get_empty_value_rejected:
  assumes "validStorageKey E key" and "s key = None" and "convertStringToBase64 E val = []"
  shows "putObject E (client memoryOctokit) key val (start s) =
           Some (Resolved (),
                 \<lparr>calls = [GET ''acme'' ''data'' key, PUT ''acme'' ''data'' key [] None],
                  remote = s(key := Some (FileEntry []))\<rparr>) \<and>
         getObject E (client memoryOctokit) key
             \<lparr>calls = [GET ''acme'' ''data'' key, PUT ''acme'' ''data'' key [] None],
              remote = s(key := Some (FileEntry []))\<rparr> =
           (Rejected (Str (GITHUB_API_ERROR_MESSAGE E)),
            \<lparr>calls = [GET ''acme'' ''data'' key, PUT ''acme'' ''data'' key [] None,
                      GET ''acme'' ''data'' key],
             remote = s(key := Some (FileEntry []))\<rparr>)"
  using assms put_new_key_memory [of E key s val]
    get_file_memory [of E key
      "\<lparr>calls = [GET ''acme'' ''data'' key, PUT ''acme'' ''data'' key [] None],
        remote = s(key := Some (FileEntry []))\<rparr>" "[]"]
  by simp

theorem put_then_get_empty_value_rejected_witness:
  "putObject exampleEnv (client memoryOctokit) ''notes/a.txt'' [] (start (\<lambda>_. None)) =
     Some (Resolved (),
           \<lparr>calls = [GET ''acme'' ''data'' ''notes/a.txt'',
                     PUT ''acme'' ''data'' ''notes/a.txt'' [] None],
            remote = (\<lambda>_. None)(''notes/a.txt'' := Some (FileEntry []))\<rparr>) \<and>
   getObject exampleEnv (client memoryOctokit) ''notes/a.txt''
       \<lparr>calls = [GET ''acme'' ''data'' ''notes/a.txt'',
                 PUT ''acme'' ''data'' ''notes/a.txt'' [] None],
        remote = (\<lambda>_. None)(''notes/a.txt'' := Some (FileEntry []))\<rparr> =
     (Rejected (Str ''GitHub API error''),
      \<lparr>calls = [GET ''acme'' ''data'' ''notes/a.txt'',
                PUT ''acme'' ''data'' ''notes/a.txt'' [] None,
                GET ''acme'' ''data'' ''notes/a.txt''],
       remote = (\<lambda>_. None)(''notes/a.txt'' := Some (FileEntry []))\<rparr>)"
  using put_then_get_empty_value_rejected [of exampleEnv "''notes/a.txt''" "\<lambda>_. None" "[]"]
  by (simp add: exampleEnv_def exampleValidKey_def base64_encode_def)

text \<open>
  For every value whose encoding is not empty and decodes to the value, the round trip
  holds on the in-memory substitute.
\<close>

lemma put_then_get_roundtrip:
  assumes "validStorageKey E key" and "s key = None"
    and "convertStringToBase64 E val \<noteq> []"
    and "convertBase64ToString E (convertStringToBase64 E val) = val"
  shows "putObject E (client memoryOctokit) key val (start s) =
           Some (Resolved (),
                 \<lparr>calls = [GET ''acme'' ''data'' key,
                           PUT ''acme'' ''data'' key (convertStringToBase64 E val) None],
                  remote = s(key := Some (FileEntry (convertStringToBase64 E val)))\<rparr>) \<and>
         fst (getObject E (client memoryOctokit) key
               \<lparr>calls = [GET ''acme'' ''data'' key,
                         PUT ''acme'' ''data'' key (convertStringToBase64 E val) None],
                remote = s(key := Some (FileEntry (convertStringToBase64 E val)))\<rparr>) =
           Resolved val"
  using assms put_new_key_memory [of E key s val]
    get_file_memory [of E key "\<lparr>calls = [GET ''acme'' ''data'' key,
                         PUT ''acme'' ''data'' key (convertStringToBase64 E val) None],
                remote = s(key := Some (FileEntry (convertStringToBase64 E val)))\<rparr>"
          "convertStringToBase64 E val"]
  by simp

subsection \<open>The base64 instance\<close>

text \<open>
  The instance of the conversions is a transport encoding in the sense of the spec:
  decoding inverts encoding, and only the empty string has an empty encoding.
\<close>

lemma high_part: "y < k \<Longrightarrow> (x * k + y) div k = (x::nat)"
  by simp

lemma low_part: "y < k \<Longrightarrow> (x * k + y) mod k = (y::nat)"
  by simp

lemma octet_bounds:
  fixes a :: nat
  assumes "a < 256"
  shows "a div 4 < 64" "a div 16 < 16" "a div 64 < 4"
  using assms by (simp_all add: less_mult_imp_div_less)

lemma sextet_bound:
  fixes x y :: nat
  shows "x < 4 \<Longrightarrow> y < 16 \<Longrightarrow> x * 16 + y < 64"
    and "x < 16 \<Longrightarrow> y < 4 \<Longrightarrow> x * 4 + y < 64"
  by linarith+


lemma sextet_table: "\<forall>n \<in> set [0..<64]. char_sextet (sextet_char n) = Some n"
  by code_simp

lemma char_sextet_sextet_char: "n < 64 \<Longrightarrow> char_sextet (sextet_char n) = Some n"
  using sextet_table by simp

lemma char_sextet_pad: "char_sextet CHR ''='' = None"
  by code_simp

lemma keep_sextet:
  "n < 64 \<Longrightarrow>
   List.map_filter char_sextet (sextet_char n # cs) = n # List.map_filter char_sextet cs"
  by (simp add: List.map_filter_simps char_sextet_sextet_char)

lemma no_sextets: "List.map_filter char_sextet [] = []"
  by (simp add: List.map_filter_simps)

lemma skip_pad:
  "List.map_filter char_sextet (CHR ''='' # cs) = List.map_filter char_sextet cs"
  by (simp add: List.map_filter_simps char_sextet_pad)

lemma sextets_lt:
  fixes a b c :: nat
  assumes "a < 256" "b < 256" "c < 256"
  shows "a div 4 < 64" "a mod 4 * 16 + b div 16 < 64" "b mod 16 * 4 + c div 64 < 64"
    "c mod 64 < 64" "a mod 4 * 16 < 64" "b mod 16 * 4 < 64"
  using assms by (simp_all add: octet_bounds sextet_bound)

lemma regroup:
  assumes "b < 256" "c < 256"
  shows "a div 4 * 4 + (a mod 4 * 16 + b div 16) div 16 = (a::nat)"
    and "(a mod 4 * 16 + b div 16) mod 16 * 16 + (b mod 16 * 4 + c div 64) div 4 = b"
    and "(b mod 16 * 4 + c div 64) mod 4 * 64 + c mod 64 = c"
    and "a div 4 * 4 + (a mod 4 * 16) div 16 = a"
    and "(a mod 4 * 16 + b div 16) mod 16 * 16 + (b mod 16 * 4) div 4 = b"
  using assms by (simp_all add: high_part low_part octet_bounds)

lemma decode_encode_octets:
  "\<forall>b \<in> set bs. b < 256 \<Longrightarrow>
   decode_sextets (List.map_filter char_sextet (encode_octets bs)) = bs"
proof (induction bs rule: encode_octets.induct)
  case (1 a b c rest)
  then have lt: "a < 256" "b < 256" "c < 256"
    and IH: "decode_sextets (List.map_filter char_sextet (encode_octets rest)) = rest"
    by simp_all
  show ?case
    by (simp only: encode_octets.simps keep_sextet sextets_lt [OF lt] decode_sextets.simps
        regroup [OF lt(2,3)] IH)
next
  case (2 a b)
  then have lt: "a < 256" "b < 256"
    by simp_all
  show ?case
    by (simp only: encode_octets.simps keep_sextet skip_pad sextets_lt [OF lt lt(1)]
        no_sextets decode_sextets.simps regroup [OF lt(2) lt(1)])
next
  case (3 a)
  then have lt: "a < 256"
    by simp
  show ?case
    by (simp only: encode_octets.simps keep_sextet skip_pad sextets_lt [OF lt lt lt]
        no_sextets decode_sextets.simps regroup [OF lt lt])
next
  case 4
  show ?case
    by (simp add: List.map_filter_simps)
qed

lemma base64_roundtrip: "base64_decode (base64_encode s) = s"
proof -
  have "\<forall>b \<in> set (map of_char s :: nat list). b < 256"
    by simp
  then show ?thesis
    by (simp add: base64_decode_def base64_encode_def decode_encode_octets comp_def)
qed

lemma base64_encode_empty_iff: "base64_encode s = [] \<longleftrightarrow> s = []"
  by (cases "map of_char s :: nat list" rule: encode_octets.cases)
     (auto simp add: base64_encode_def)

text \<open>
  With the instance, a valid key that holds nothing and any value but the empty string:
  \<open>putObject\<close> followed by \<open>getObject\<close> gives the value back.
\<close>

lemma put_then_get_nonempty_value:
  assumes "exampleValidKey key" and "s key = None" and "val \<noteq> []"
  shows "fst (getObject exampleEnv (client memoryOctokit) key
               \<lparr>calls = [GET ''acme'' ''data'' key,
                         PUT ''acme'' ''data'' key (base64_encode val) None],
                remote = s(key := Some (FileEntry (base64_encode val)))\<rparr>) =
           Resolved val"
  using assms put_then_get_roundtrip [of exampleEnv key s val]
  by (simp add: exampleEnv_def base64_roundtrip base64_encode_empty_iff)

end
